theory Spec2Isabelle
  imports Main "HOL-Library.Word" "HOL-Library.Sublist"
begin

section \<open>The Meditrail OCR client (\<^verbatim>\<open>src/ocr/python/ocr_client.py\<close>)\<close>

text \<open>
  The client is one class, \<open>MeditrailOCRClient\<close>, with a constructor and one method,
  \<open>process_document\<close>. The method reads the file system (\<open>os.path.exists\<close>,
  \<open>os.path.getsize\<close>, \<open>open\<close>), calls \<open>requests.post\<close> once and maps the response
  to a returned value or a raised exception. The model makes the three things the method
  takes from outside explicit (the file system, the transport behind \<open>requests.post\<close>
  and Python's \<open>repr\<close>), returns every raised exception as a value, and records the
  opening and closing of the file handle and the call of \<open>requests.post\<close> as a list of
  events.
\<close>

subsection \<open>Values decoded from JSON\<close>

text \<open>
  What \<open>response.json()\<close> yields: Python's \<open>None\<close>, \<open>bool\<close>, \<open>int\<close>, \<open>float\<close> (a binary64,
  kept as its 64 bits), \<open>str\<close>, \<open>list\<close> and \<open>dict\<close>. A decoded \<open>dict\<close> is an association
  list in insertion order; its keys are distinct, since the decoder keeps one value per key.
  \<open>JNull\<close> is Python's \<open>None\<close>, which is also what a function returns when it ends
  without a \<open>return\<close> statement.
\<close>

datatype json =
    JNull
  | JBool bool
  | JInt int
  | JFloat "64 word"
  | JStr string
  | JList "json list"
  | JDict "(string \<times> json) list"

fun type_name :: "json \<Rightarrow> string" where
  "type_name JNull = ''NoneType''"
| "type_name (JBool b) = ''bool''"
| "type_name (JInt i) = ''int''"
| "type_name (JFloat w) = ''float''"
| "type_name (JStr s) = ''str''"
| "type_name (JList xs) = ''list''"
| "type_name (JDict kvs) = ''dict''"

text \<open>\<open>isinstance(v, dict)\<close>.\<close>

fun is_dict :: "json \<Rightarrow> bool" where
  "is_dict (JDict kvs) = True"
| "is_dict v = False"

text \<open>
  \<open>str(v)\<close>, as an f-string applies it to an interpolated value: a \<open>str\<close> is inserted as it
  is, and for every other decoded value \<open>str\<close> is \<open>repr\<close>, which the model takes as a
  parameter.
\<close>

fun py_str :: "(json \<Rightarrow> string) \<Rightarrow> json \<Rightarrow> string" where
  "py_str rp (JStr s) = s"
| "py_str rp v = rp v"

subsection \<open>Responses, requests, exceptions\<close>

text \<open>
  A response as the method reads it: \<open>response.status_code\<close> and the result of
  \<open>response.json()\<close>, which is \<open>None\<close> when the body is not valid JSON (the call then
  raises \<open>JSONDecodeError\<close>).
\<close>

record http_response =
  status_code :: int
  json_body :: "json option"

text \<open>
  The arguments of the one \<open>requests.post\<close> call. A file part is the field name, the
  file name and the handle that \<open>open\<close> returned; a handle is named by the path it was
  opened on.
\<close>

record http_request =
  req_method :: string
  req_url :: string
  req_headers :: "(string \<times> string) list"
  req_files :: "(string \<times> string \<times> string) list"
  req_data :: "(string \<times> string) list"
  req_timeout :: int

text \<open>
  The exception classes that can leave \<open>process_document\<close>. \<open>Timeout\<close> and
  \<open>ConnectionError\<close> are the classes of \<open>requests.exceptions\<close> with their subclasses,
  \<open>HTTPError\<close> carries the response it was raised for, \<open>OSError\<close> carries the errno and
  the file name of a failed \<open>open\<close> (\<open>IsADirectoryError\<close>, \<open>PermissionError\<close>, ...), and
  \<open>OtherException\<close> stands for anything else \<open>requests.post\<close> may raise.
\<close>

datatype py_exception =
    FileNotFoundError string
  | ValueError string
  | OSError int string
  | RequestException string
  | HTTPError http_response
  | Timeout
  | ConnectionError
  | JSONDecodeError
  | AttributeError string
  | OtherException string

fun exc_class :: "py_exception \<Rightarrow> string" where
  "exc_class (FileNotFoundError m) = ''FileNotFoundError''"
| "exc_class (ValueError m) = ''ValueError''"
| "exc_class (OSError n f) = ''OSError''"
| "exc_class (RequestException m) = ''RequestException''"
| "exc_class (HTTPError r) = ''HTTPError''"
| "exc_class Timeout = ''Timeout''"
| "exc_class ConnectionError = ''ConnectionError''"
| "exc_class JSONDecodeError = ''JSONDecodeError''"
| "exc_class (AttributeError m) = ''AttributeError''"
| "exc_class (OtherException m) = ''Exception''"

text \<open>
  \<open>requests.post\<close> either returns a response or raises. The events of one call of
  \<open>process_document\<close>, in order: a successful \<open>open(path, 'rb')\<close>, the call of
  \<open>requests.post\<close>, and \<open>close()\<close> on the handle.
\<close>

datatype post_outcome = Response http_response | Raises py_exception

datatype event = Open string | Post http_request | Close string

subsection \<open>The environment\<close>

text \<open>
  A path that exists has a size (\<open>st_size\<close>, the signed 64-bit \<open>off_t\<close> of \<open>stat\<close>) and
  either opens for reading or makes \<open>open\<close> raise an \<open>OSError\<close> with some errno.
\<close>

record fs_entry =
  st_size :: "64 word"
  open_errno :: "int option"

record env =
  fs :: "string \<Rightarrow> fs_entry option"
  post :: "http_request \<Rightarrow> post_outcome"
  repr :: "json \<Rightarrow> string"

text \<open>\<open>os.path.exists\<close> and \<open>os.path.getsize\<close>.\<close>

definition path_exists :: "(string \<Rightarrow> fs_entry option) \<Rightarrow> string \<Rightarrow> bool" where
  "path_exists f p = (f p \<noteq> None)"

definition getsize :: "(string \<Rightarrow> fs_entry option) \<Rightarrow> string \<Rightarrow> py_exception + int" where
  "getsize f p = (case f p of None \<Rightarrow> Inl (OSError 2 p) | Some e \<Rightarrow> Inr (sint (st_size e)))"

text \<open>\<open>open(path, 'rb')\<close>: the handle, or the \<open>OSError\<close> (errno 2 when the path is missing).\<close>

definition open_rb :: "(string \<Rightarrow> fs_entry option) \<Rightarrow> string \<Rightarrow> py_exception + string" where
  "open_rb f p =
     (case f p of
        None \<Rightarrow> Inl (OSError 2 p)
      | Some e \<Rightarrow> (case open_errno e of Some n \<Rightarrow> Inl (OSError n p) | None \<Rightarrow> Inr p))"

text \<open>The handles left open by a list of events; \<open>close()\<close> on a closed handle does nothing.\<close>

fun apply_event :: "event \<Rightarrow> string list \<Rightarrow> string list" where
  "apply_event (Open h) hs = h # hs"
| "apply_event (Post r) hs = hs"
| "apply_event (Close h) hs = removeAll h hs"

definition open_handles :: "event list \<Rightarrow> string list" where
  "open_handles es = fold apply_event es []"

fun posts :: "event list \<Rightarrow> http_request list" where
  "posts [] = []"
| "posts (Post r # es) = r # posts es"
| "posts (e # es) = posts es"

subsection \<open>Library functions the method calls\<close>

text \<open>\<open>s.rstrip(c)\<close> for a single character \<open>c\<close>, and \<open>os.path.basename\<close> of \<open>posixpath\<close>.\<close>

definition rstrip :: "char \<Rightarrow> string \<Rightarrow> string" where
  "rstrip c s = rev (dropWhile (\<lambda>x. x = c) (rev s))"

definition basename :: "string \<Rightarrow> string" where
  "basename p = rev (takeWhile (\<lambda>x. x \<noteq> CHR ''/'') (rev p))"

text \<open>
  \<open>d.get(key, default)\<close> on a decoded value: only a \<open>dict\<close> has the method, every other
  value raises \<open>AttributeError\<close>.
\<close>

definition dict_get :: "json \<Rightarrow> string \<Rightarrow> json \<Rightarrow> py_exception + json" where
  "dict_get d k dflt =
     (case d of
        JDict kvs \<Rightarrow> Inr (case map_of kvs k of None \<Rightarrow> dflt | Some v \<Rightarrow> v)
      | _ \<Rightarrow> Inl (AttributeError
                 ([CHR 0x27] @ type_name d @ [CHR 0x27] @ '' object has no attribute ''
                  @ [CHR 0x27] @ ''get'' @ [CHR 0x27])))"

text \<open>\<open>response.json()\<close> and \<open>response.raise_for_status()\<close> (which raises for 400..599 only).\<close>

definition response_json :: "http_response \<Rightarrow> py_exception + json" where
  "response_json r = (case json_body r of None \<Rightarrow> Inl JSONDecodeError | Some v \<Rightarrow> Inr v)"

definition raise_for_status :: "http_response \<Rightarrow> py_exception + unit" where
  "raise_for_status r =
     (if 400 \<le> status_code r \<and> status_code r < 600 then Inl (HTTPError r) else Inr ())"

text \<open>Sequencing: the first raised exception ends the computation.\<close>

fun and_then :: "py_exception + 'a \<Rightarrow> ('a \<Rightarrow> py_exception + 'b) \<Rightarrow> py_exception + 'b" where
  "and_then (Inl e) f = Inl e"
| "and_then (Inr x) f = f x"

subsection \<open>The size in the message of the local size check\<close>

text \<open>
  \<open>f"{file_size / (1024*1024):.2f}"\<close> in integer arithmetic. The true division of two
  \<open>int\<close>s is the binary64 nearest to the quotient; as the divisor is \<open>2^20\<close>, that is
  \<open>file_size\<close> rounded to 53 significant bits (ties to even), over \<open>2^20\<close>. The format
  \<open>.2f\<close> prints the decimal with two places nearest to that binary64 (ties to even).
\<close>

fun bit_length :: "nat \<Rightarrow> nat" where
  "bit_length n = (if n = 0 then 0 else Suc (bit_length (n div 2)))"

definition round_half_even :: "nat \<Rightarrow> nat \<Rightarrow> nat" where
  "round_half_even a b =
     (let q = a div b; r = a mod b
      in if b < 2 * r \<or> (2 * r = b \<and> odd q) then q + 1 else q)"

definition round53 :: "nat \<Rightarrow> nat" where
  "round53 n =
     (let b = bit_length n
      in if b \<le> 53 then n else round_half_even n (2 ^ (b - 53)) * 2 ^ (b - 53))"

fun str_nat :: "nat \<Rightarrow> string" where
  "str_nat n =
     (if n < 10 then [''0123456789'' ! n]
      else str_nat (n div 10) @ [''0123456789'' ! (n mod 10)])"

definition format_mb :: "int \<Rightarrow> string" where
  "format_mb file_size =
     (let h = round_half_even (round53 (nat file_size) * 100) (2 ^ 20)
      in str_nat (h div 100) @ ''.'' @ str_nat (h mod 100 div 10) @ str_nat (h mod 10))"

subsection \<open>The client\<close>

record client =
  api_key :: string
  base_url :: string
  headers :: "(string \<times> string) list"

definition default_base_url :: string where
  "default_base_url = ''https://meditrail.unitedwecare.com/api/v1''"

text \<open>\<open>MeditrailOCRClient.__init__\<close> (lines 20-32).\<close>

definition init :: "string \<Rightarrow> string \<Rightarrow> client" where
  "init key url =
     \<lparr>api_key = key, base_url = rstrip (CHR ''/'') url, headers = [(''X-API-Key'', key)]\<rparr>"

text \<open>
  Lines 55-62 of \<open>process_document\<close>: the existence check and the size check. The
  result is the file size when both pass.
\<close>

definition check_file :: "(string \<Rightarrow> fs_entry option) \<Rightarrow> string \<Rightarrow> py_exception + int" where
  "check_file f file_path =
     (if \<not> path_exists f file_path
      then Inl (FileNotFoundError (''File not found: '' @ file_path))
      else and_then (getsize f file_path) (\<lambda>file_size.
        if 50 * 1024 * 1024 < file_size
        then Inl (ValueError (''File too large: '' @ format_mb file_size @ ''MB (max: 50MB)''))
        else Inr file_size))"

text \<open>
  Lines 64-85: the URL, the \<open>files\<close> and \<open>data\<close> dictionaries and the other arguments of
  \<open>requests.post\<close>. \<open>if text:\<close> is false for \<open>None\<close> and for the empty string.
\<close>

definition form_field :: "string \<Rightarrow> string option \<Rightarrow> (string \<times> string) list" where
  "form_field k v = (case v of None \<Rightarrow> [] | Some s \<Rightarrow> if s = [] then [] else [(k, s)])"

definition build_request ::
  "client \<Rightarrow> string \<Rightarrow> string \<Rightarrow> string option \<Rightarrow> string option \<Rightarrow> http_request" where
  "build_request c file_path handle text system_prompt =
     \<lparr>req_method = ''POST'',
      req_url = base_url c @ ''/ocr/process'',
      req_headers = headers c,
      req_files = [(''file'', basename file_path, handle)],
      req_data = form_field ''text'' text @ form_field ''system_prompt'' system_prompt,
      req_timeout = 60\<rparr>"

text \<open>
  Lines 91-109: the branch on the status code. The last branch calls
  \<open>raise_for_status\<close> and, when that returns, the method ends without a \<open>return\<close>
  statement, which returns \<open>None\<close>.
\<close>

definition handle_response :: "(json \<Rightarrow> string) \<Rightarrow> http_response \<Rightarrow> py_exception + json" where
  "handle_response rp r =
     (if status_code r = 200 then response_json r
      else if status_code r = 400 then
        and_then (response_json r) (\<lambda>body.
        and_then (dict_get body ''detail'' (JStr ''Bad Request'')) (\<lambda>error_detail.
        Inl (RequestException (''Bad Request: '' @ py_str rp error_detail))))
      else if status_code r = 413 then
        Inl (RequestException ''File too large (max 50MB)'')
      else if status_code r = 429 then
        and_then (response_json r) (\<lambda>body.
        and_then (dict_get body ''detail'' (JDict [])) (\<lambda>error_detail.
        if is_dict error_detail then
          and_then (dict_get error_detail ''message'' (JStr ''Usage limit exceeded'')) (\<lambda>message.
          Inl (RequestException (''Usage limit exceeded: '' @ py_str rp message)))
        else Inl (RequestException ''Usage limit exceeded'')))
      else if status_code r = 500 then
        and_then (response_json r) (\<lambda>body.
        and_then (dict_get body ''detail'' (JStr ''Internal Server Error'')) (\<lambda>error_detail.
        Inl (RequestException (''Internal Server Error: '' @ py_str rp error_detail))))
      else and_then (raise_for_status r) (\<lambda>u. Inr JNull))"

text \<open>
  Lines 111-116: the three \<open>except\<close> clauses, tried in order; an exception that matches
  none of them propagates unchanged.
\<close>

fun except_clauses :: "py_exception \<Rightarrow> py_exception" where
  "except_clauses Timeout = RequestException ''Request timed out''"
| "except_clauses ConnectionError = RequestException ''Connection error''"
| "except_clauses JSONDecodeError = RequestException ''Invalid JSON response''"
| "except_clauses e = e"

text \<open>
  \<open>process_document\<close> (lines 34-120). The checks and \<open>open\<close> come before the \<open>try\<close>
  statement, so an exception they raise leaves the method at once. Inside \<open>try\<close>, the
  handle is closed after \<open>requests.post\<close> has returned (line 88), and the \<open>finally\<close>
  clause closes it on every path: there \<open>files\<close> is a local variable and a file object is
  true, so its condition holds.
\<close>

definition process_document ::
  "env \<Rightarrow> client \<Rightarrow> string \<Rightarrow> string option \<Rightarrow> string option
    \<Rightarrow> (py_exception + json) \<times> event list" where
  "process_document ev c file_path text system_prompt =
     (case check_file (fs ev) file_path of
        Inl e \<Rightarrow> (Inl e, [])
      | Inr file_size \<Rightarrow>
          (case open_rb (fs ev) file_path of
             Inl e \<Rightarrow> (Inl e, [])
           | Inr handle \<Rightarrow>
               (let req = build_request c file_path handle text system_prompt
                in case post ev req of
                     Raises e \<Rightarrow>
                       (Inl (except_clauses e), [Open handle, Post req, Close handle])
                   | Response r \<Rightarrow>
                       (case handle_response (repr ev) r of
                          Inl e \<Rightarrow>
                            (Inl (except_clauses e),
                             [Open handle, Post req, Close handle, Close handle])
                        | Inr v \<Rightarrow>
                            (Inr v, [Open handle, Post req, Close handle, Close handle])))))"

subsection \<open>Scenarios\<close>

text \<open>
  \<open>responds\<close>: the file passes both local checks and opens, and \<open>requests.post\<close>
  returns the response \<open>r\<close> for the request the method builds.
\<close>

definition responds ::
  "env \<Rightarrow> client \<Rightarrow> string \<Rightarrow> string option \<Rightarrow> string option \<Rightarrow> http_response \<Rightarrow> bool" where
  "responds ev c file_path text system_prompt r =
     (case fs ev file_path of
        None \<Rightarrow> False
      | Some e \<Rightarrow>
          sint (st_size e) \<le> 50 * 1024 * 1024 \<and> open_errno e = None \<and>
          post ev (build_request c file_path file_path text system_prompt) = Response r)"

text \<open>
  A small file system, a transport with one fixed outcome and a body of the shape the
  service documents, for concrete runs.
\<close>

definition sample_fs :: "string \<Rightarrow> fs_entry option" where
  "sample_fs =
     [''scans/scan.pdf'' \<mapsto> \<lparr>st_size = 2048, open_errno = None\<rparr>,
      ''big.pdf'' \<mapsto> \<lparr>st_size = 52428801, open_errno = None\<rparr>,
      ''locked.pdf'' \<mapsto> \<lparr>st_size = 10, open_errno = Some 13\<rparr>]"

definition mock_env :: "post_outcome \<Rightarrow> env" where
  "mock_env out = \<lparr>fs = sample_fs, post = (\<lambda>req. out), repr = (\<lambda>v. ''<repr>'')\<rparr>"

definition sample_body :: json where
  "sample_body =
     JDict [(''id'', JInt 7), (''clinical_relevance'', JBool True),
            (''doctor_names'', JList [JStr ''Rao'']), (''response'', JStr ''{}''),
            (''metadata'', JDict [(''page_count'', JInt 2)])]"

subsection \<open>The error kinds of the specification\<close>

text \<open>
  The specification names the failures of \<open>process_document\<close> by kind (its section 7).
  In the source most of these kinds are one exception class, \<open>RequestException\<close>, told
  apart by the message alone, and \<open>main\<close> shows the user nothing but the message
  (\<open>print(f"Error processing document: {e}")\<close>). \<open>user_facing_kind\<close> follows the
  specification's list: it reads the kind off the message of the exception, and off the
  status for an \<open>HTTPError\<close>.
\<close>

datatype error_kind =
    FileNotFound
  | FileTooLarge
  | BadRequest
  | UsageLimitExceeded
  | ServerError
  | HttpError int
  | RequestTimeout
  | ConnectionFailed
  | InvalidResponse
  | OtherKind

definition kind_of_message :: "string \<Rightarrow> error_kind" where
  "kind_of_message m =
     (if prefix ''File not found: '' m then FileNotFound
      else if prefix ''File too large'' m then FileTooLarge
      else if prefix ''Bad Request: '' m then BadRequest
      else if prefix ''Usage limit exceeded'' m then UsageLimitExceeded
      else if prefix ''Internal Server Error: '' m then ServerError
      else if m = ''Request timed out'' then RequestTimeout
      else if m = ''Connection error'' then ConnectionFailed
      else if m = ''Invalid JSON response'' then InvalidResponse
      else OtherKind)"

fun user_facing_kind :: "py_exception \<Rightarrow> error_kind" where
  "user_facing_kind (FileNotFoundError m) = kind_of_message m"
| "user_facing_kind (ValueError m) = kind_of_message m"
| "user_facing_kind (RequestException m) = kind_of_message m"
| "user_facing_kind (HTTPError r) = HttpError (status_code r)"
| "user_facing_kind e = OtherKind"

section \<open>Properties\<close>

subsection \<open>Auxiliary facts\<close>

lemmas sample_run =
  process_document_def check_file_def path_exists_def getsize_def open_rb_def
  build_request_def init_def rstrip_def basename_def form_field_def handle_response_def
  response_json_def raise_for_status_def dict_get_def mock_env_def sample_fs_def

lemma check_file_present:
  "f p = Some e \<Longrightarrow>
   check_file f p =
     (if 52428800 < sint (st_size e)
      then Inl (ValueError (''File too large: '' @ format_mb (sint (st_size e)) @ ''MB (max: 50MB)''))
      else Inr (sint (st_size e)))"
  by (simp add: check_file_def path_exists_def getsize_def)

lemma process_document_responds:
  assumes "responds ev c p t s r"
  shows "process_document ev c p t s =
           (case handle_response (repr ev) r of Inl e \<Rightarrow> Inl (except_clauses e) | Inr v \<Rightarrow> Inr v,
            [Open p, Post (build_request c p p t s), Close p, Close p])"
proof -
  from assms obtain e where e: "fs ev p = Some e" "sint (st_size e) \<le> 52428800"
    "open_errno e = None" "post ev (build_request c p p t s) = Response r"
    by (auto simp: responds_def split: option.splits)
  from e(1,2) have "check_file (fs ev) p = Inr (sint (st_size e))"
    by (simp add: check_file_present)
  moreover from e(1,3) have "open_rb (fs ev) p = Inr p"
    by (simp add: open_rb_def)
  ultimately show ?thesis
    using e(4) by (simp add: process_document_def split: sum.splits)
qed

lemma process_document_raises:
  assumes "fs ev p = Some e" "sint (st_size e) \<le> 52428800" "open_errno e = None"
    and "post ev (build_request c p p t s) = Raises x"
  shows "process_document ev c p t s =
           (Inl (except_clauses x), [Open p, Post (build_request c p p t s), Close p])"
proof -
  from assms(1,2) have "check_file (fs ev) p = Inr (sint (st_size e))"
    by (simp add: check_file_present)
  moreover from assms(1,3) have "open_rb (fs ev) p = Inr p"
    by (simp add: open_rb_def)
  ultimately show ?thesis
    using assms(4) by (simp add: process_document_def)
qed

lemma post_called_once:
  assumes "fs ev p = Some e" and "sint (st_size e) \<le> 52428800" and "open_errno e = None"
  shows "posts (snd (process_document ev c p t s)) = [build_request c p p t s]"
proof (cases "post ev (build_request c p p t s)")
  case (Response r)
  with assms have "responds ev c p t s r"
    by (simp add: responds_def)
  then show ?thesis by (simp add: process_document_responds)
next
  case (Raises x)
  with assms show ?thesis by (simp add: process_document_raises)
qed

lemma trace_closed:
  "snd (process_document ev c p t s) = [] \<or>
   snd (process_document ev c p t s) = [Open p, Post (build_request c p p t s), Close p] \<or>
   snd (process_document ev c p t s) = [Open p, Post (build_request c p p t s), Close p, Close p]"
  by (auto simp: process_document_def open_rb_def Let_def
           split: sum.splits option.splits post_outcome.splits)

lemma responds_sample:
  "responds (mock_env (Response r)) c ''scans/scan.pdf'' t s r"
  by (simp add: responds_def mock_env_def sample_fs_def)

lemma rstrip_decomp: "\<exists>n. s = rstrip c s @ replicate n c"
proof -
  let ?P = "\<lambda>x. x = c"
  have "rev s = takeWhile ?P (rev s) @ dropWhile ?P (rev s)" by simp
  then have "s = rev (dropWhile ?P (rev s)) @ rev (takeWhile ?P (rev s))"
    by (metis rev_append rev_rev_ident)
  moreover have "replicate (length (takeWhile ?P (rev s))) c = takeWhile ?P (rev s)"
    by (rule replicate_length_same) (auto dest: set_takeWhileD)
  then have "rev (takeWhile ?P (rev s)) = replicate (length (takeWhile ?P (rev s))) c"
    by (metis rev_replicate)
  ultimately show ?thesis unfolding rstrip_def by metis
qed

lemma rstrip_last: "rstrip c s = [] \<or> last (rstrip c s) \<noteq> c"
proof (cases "dropWhile (\<lambda>x. x = c) (rev s) = []")
  case True
  then show ?thesis by (simp add: rstrip_def)
next
  case False
  then have "hd (dropWhile (\<lambda>x. x = c) (rev s)) \<noteq> c" by (rule hd_dropWhile)
  with False show ?thesis by (simp add: rstrip_def last_rev)
qed

lemma basename_decomp:
  "\<exists>d. p = d @ basename p \<and> (d = [] \<or> last d = CHR ''/'')"
proof -
  let ?P = "\<lambda>x. x \<noteq> CHR ''/''"
  let ?d = "rev (dropWhile ?P (rev p))"
  have "rev p = takeWhile ?P (rev p) @ dropWhile ?P (rev p)" by simp
  then have "p = ?d @ basename p"
    unfolding basename_def by (metis rev_append rev_rev_ident)
  moreover have "?d = [] \<or> last ?d = CHR ''/''"
  proof (cases "dropWhile ?P (rev p) = []")
    case True
    then show ?thesis by simp
  next
    case False
    then have "\<not> ?P (hd (dropWhile ?P (rev p)))" by (rule hd_dropWhile)
    with False show ?thesis by (simp add: last_rev)
  qed
  ultimately show ?thesis by blast
qed

lemma basename_no_slash: "CHR ''/'' \<notin> set (basename p)"
  by (auto simp: basename_def dest: set_takeWhileD)

subsection \<open>Local checks\<close>

text \<open>
  Claim C8. For every path that does not exist, \<open>process_document\<close> raises
  \<open>FileNotFoundError\<close> (the spec's FileNotFound); the file is not opened and
  \<open>requests.post\<close> is not called.
\<close>

theorem missing_path_FileNotFoundError:
  assumes "\<not> path_exists (fs ev) file_path"
  shows "process_document ev c file_path text system_prompt =
           (Inl (FileNotFoundError (''File not found: '' @ file_path)), [])
         \<and> posts (snd (process_document ev c file_path text system_prompt)) = []"
  using assms by (simp add: process_document_def check_file_def)

theorem missing_path_FileNotFoundError_witness:
  "\<not> path_exists (fs (mock_env (Raises Timeout))) ''nowhere.pdf''
   \<and> process_document (mock_env (Raises Timeout)) (init ''key'' default_base_url)
        ''nowhere.pdf'' None None
       = (Inl (FileNotFoundError ''File not found: nowhere.pdf''), [])"
proof -
  have missing: "\<not> path_exists (fs (mock_env (Raises Timeout))) ''nowhere.pdf''"
    by (simp add: path_exists_def mock_env_def sample_fs_def)
  show ?thesis
    using missing_path_FileNotFoundError [OF missing, of "init ''key'' default_base_url" None None]
      missing
    by simp
qed

text \<open>
  Claim C2. For every existing file of more than 52428800 bytes, \<open>process_document\<close>
  raises the \<open>ValueError\<close> of the size check (the spec's FileTooLarge) and
  \<open>requests.post\<close> is not called. For every existing file of at most 52428800 bytes the
  local checks pass, and when the file opens, \<open>requests.post\<close> is called once.
\<close>

theorem local_size_check:
  assumes "fs ev file_path = Some e"
  shows "(52428800 < sint (st_size e) \<longrightarrow>
            process_document ev c file_path text system_prompt =
              (Inl (ValueError (''File too large: '' @ format_mb (sint (st_size e))
                                @ ''MB (max: 50MB)'')), [])
            \<and> posts (snd (process_document ev c file_path text system_prompt)) = [])
       \<and> (sint (st_size e) \<le> 52428800 \<longrightarrow>
            check_file (fs ev) file_path = Inr (sint (st_size e))
            \<and> (open_errno e = None \<longrightarrow>
                 posts (snd (process_document ev c file_path text system_prompt)) =
                   [build_request c file_path file_path text system_prompt]))"
proof (intro conjI impI)
  assume big: "52428800 < sint (st_size e)"
  with assms show "process_document ev c file_path text system_prompt =
      (Inl (ValueError (''File too large: '' @ format_mb (sint (st_size e))
                        @ ''MB (max: 50MB)'')), [])"
    by (simp add: process_document_def check_file_present)
  then show "posts (snd (process_document ev c file_path text system_prompt)) = []"
    by simp
next
  assume small: "sint (st_size e) \<le> 52428800"
  with assms show "check_file (fs ev) file_path = Inr (sint (st_size e))"
    by (simp add: check_file_present)
next
  assume small: "sint (st_size e) \<le> 52428800" and opens: "open_errno e = None"
  show "posts (snd (process_document ev c file_path text system_prompt)) =
          [build_request c file_path file_path text system_prompt]"
    using assms small opens by (rule post_called_once)
qed

theorem local_size_check_witness:
  "fs (mock_env (Raises Timeout)) ''big.pdf'' = Some \<lparr>st_size = 52428801, open_errno = None\<rparr>
   \<and> 52428800 < sint (52428801 :: 64 word)
   \<and> process_document (mock_env (Raises Timeout)) (init ''key'' default_base_url) ''big.pdf'' None None
       = (Inl (ValueError ''File too large: 50.00MB (max: 50MB)''), [])
   \<and> fs (mock_env (Raises Timeout)) ''scans/scan.pdf'' = Some \<lparr>st_size = 2048, open_errno = None\<rparr>
   \<and> sint (2048 :: 64 word) \<le> 52428800
   \<and> check_file (fs (mock_env (Raises Timeout))) ''scans/scan.pdf'' = Inr 2048
   \<and> length (posts (snd (process_document (mock_env (Raises Timeout)) (init ''key'' default_base_url)
         ''scans/scan.pdf'' None None))) = 1"
proof -
  have big: "fs (mock_env (Raises Timeout)) ''big.pdf'' = Some \<lparr>st_size = 52428801, open_errno = None\<rparr>"
    by (simp add: mock_env_def sample_fs_def)
  have small: "fs (mock_env (Raises Timeout)) ''scans/scan.pdf'' = Some \<lparr>st_size = 2048, open_errno = None\<rparr>"
    by (simp add: mock_env_def sample_fs_def)
  have fmt: "format_mb 52428801 = ''50.00''"
    by (simp add: format_mb_def round53_def round_half_even_def Let_def)
  show ?thesis
    using local_size_check [OF big, of "init ''key'' default_base_url" None None]
      local_size_check [OF small, of "init ''key'' default_base_url" None None] big small fmt
    by simp
qed

lemma file_too_large_outcomes:
  assumes "fs ev p = Some e" and "52428800 < sint (st_size e)"
    and "responds ev' c' p' t' s' r" and "status_code r = 413"
  shows "fst (process_document ev c p t s) =
           Inl (ValueError (''File too large: '' @ format_mb (sint (st_size e)) @ ''MB (max: 50MB)''))"
    and "fst (process_document ev' c' p' t' s') = Inl (RequestException ''File too large (max 50MB)'')"
proof -
  from assms(1,2) show "fst (process_document ev c p t s) =
      Inl (ValueError (''File too large: '' @ format_mb (sint (st_size e)) @ ''MB (max: 50MB)''))"
    by (simp add: process_document_def check_file_present)
  from assms(4) show "fst (process_document ev' c' p' t' s') =
      Inl (RequestException ''File too large (max 50MB)'')"
    by (simp add: process_document_responds [OF assms(3)] handle_response_def)
qed

text \<open>
  Claim C3. The failure of the local size check and the failure for a 413 response are the
  same user-facing error kind, FileTooLarge: for every existing file of more than 52428800
  bytes and for every 413 response, both calls raise, and the messages of the two
  exceptions, which is all the user is shown, both read as FileTooLarge.
\<close>

theorem file_too_large_same_kind:
  assumes "fs ev p = Some e" and "52428800 < sint (st_size e)"
    and "responds ev' c' p' t' s' r" and "status_code r = 413"
  shows "\<exists>local server.
           fst (process_document ev c p t s) = Inl local
         \<and> fst (process_document ev' c' p' t' s') = Inl server
         \<and> user_facing_kind local = FileTooLarge
         \<and> user_facing_kind server = FileTooLarge
         \<and> user_facing_kind local = user_facing_kind server"
proof -
  note out = file_too_large_outcomes [OF assms]
  have "user_facing_kind (ValueError (''File too large: '' @ format_mb (sint (st_size e))
          @ ''MB (max: 50MB)'')) = FileTooLarge"
    by (simp add: kind_of_message_def)
  moreover have "user_facing_kind (RequestException ''File too large (max 50MB)'') = FileTooLarge"
    by (simp add: kind_of_message_def)
  ultimately show ?thesis using out by simp
qed

theorem file_too_large_same_kind_witness:
  "fs (mock_env (Response \<lparr>status_code = 413, json_body = None\<rparr>)) ''big.pdf''
     = Some \<lparr>st_size = 52428801, open_errno = None\<rparr>
   \<and> 52428800 < sint (52428801 :: 64 word)
   \<and> responds (mock_env (Response \<lparr>status_code = 413, json_body = None\<rparr>))
        (init ''key'' default_base_url) ''scans/scan.pdf'' None None
        \<lparr>status_code = 413, json_body = None\<rparr>
   \<and> status_code \<lparr>status_code = 413, json_body = None\<rparr> = 413
   \<and> fst (process_document (mock_env (Response \<lparr>status_code = 413, json_body = None\<rparr>))
          (init ''key'' default_base_url) ''big.pdf'' None None)
       = Inl (ValueError ''File too large: 50.00MB (max: 50MB)'')
   \<and> fst (process_document (mock_env (Response \<lparr>status_code = 413, json_body = None\<rparr>))
          (init ''key'' default_base_url) ''scans/scan.pdf'' None None)
       = Inl (RequestException ''File too large (max 50MB)'')
   \<and> user_facing_kind (ValueError ''File too large: 50.00MB (max: 50MB)'') = FileTooLarge
   \<and> user_facing_kind (RequestException ''File too large (max 50MB)'') = FileTooLarge"
proof -
  let ?ev = "mock_env (Response \<lparr>status_code = 413, json_body = None\<rparr>)"
  let ?c = "init ''key'' default_base_url"
  have big: "fs ?ev ''big.pdf'' = Some \<lparr>st_size = 52428801, open_errno = None\<rparr>"
    by (simp add: mock_env_def sample_fs_def)
  have size: "52428800 < sint (st_size \<lparr>st_size = 52428801 :: 64 word, open_errno = None :: int option\<rparr>)"
    by simp
  have resp: "responds ?ev ?c ''scans/scan.pdf'' None None \<lparr>status_code = 413, json_body = None\<rparr>"
    by (rule responds_sample)
  have status: "status_code \<lparr>status_code = 413, json_body = None\<rparr> = 413"
    by simp
  have fmt: "format_mb 52428801 = ''50.00''"
    by (simp add: format_mb_def round53_def round_half_even_def Let_def)
  have local: "fst (process_document ?ev ?c ''big.pdf'' None None)
      = Inl (ValueError ''File too large: 50.00MB (max: 50MB)'')"
    using big by (simp add: process_document_def check_file_present fmt)
  have server: "fst (process_document ?ev ?c ''scans/scan.pdf'' None None)
      = Inl (RequestException ''File too large (max 50MB)'')"
    by (simp add: process_document_responds [OF resp] handle_response_def)
  from file_too_large_same_kind [OF big size resp status, of ?c None None]
  have kinds: "user_facing_kind (ValueError ''File too large: 50.00MB (max: 50MB)'') = FileTooLarge
      \<and> user_facing_kind (RequestException ''File too large (max 50MB)'') = FileTooLarge"
    by (simp add: local server)
  from big size resp status local server kinds show ?thesis by simp
qed

text \<open>
  The two failures are the same kind by their messages only: the local check raises a
  \<open>ValueError\<close> and the 413 branch a \<open>RequestException\<close>, so their classes differ.
\<close>

lemma file_too_large_classes:
  "exc_class (ValueError m) \<noteq> exc_class (RequestException m')"
  by simp

subsection \<open>The constructor and the request\<close>

text \<open>
  Claim C5, as the spec states it: construction with the empty API key does not produce a
  usable client. It does: \<open>__init__\<close> has no check, the client it builds carries the
  header \<open>X-API-Key\<close> with the empty value, and \<open>process_document\<close> with that client
  sends the request and returns the body of a 200 response.
\<close>

theorem empty_api_key_counterexample:
  "init [] default_base_url =
     \<lparr>api_key = [], base_url = ''https://meditrail.unitedwecare.com/api/v1'',
      headers = [(''X-API-Key'', [])]\<rparr>
   \<and> process_document (mock_env (Response \<lparr>status_code = 200, json_body = Some sample_body\<rparr>))
        (init [] default_base_url) ''scans/scan.pdf'' None None
     = (Inr sample_body,
        [Open ''scans/scan.pdf'',
         Post \<lparr>req_method = ''POST'',
               req_url = ''https://meditrail.unitedwecare.com/api/v1/ocr/process'',
               req_headers = [(''X-API-Key'', [])],
               req_files = [(''file'', ''scan.pdf'', ''scans/scan.pdf'')],
               req_data = [], req_timeout = 60\<rparr>,
         Close ''scans/scan.pdf'', Close ''scans/scan.pdf''])"
  by (simp add: sample_run default_base_url_def)

text \<open>
  Claim C5, amended. The constructor accepts every API key, the empty string included,
  and stores it unchanged as \<open>api_key\<close> and as the value of the header \<open>X-API-Key\<close>;
  a client built with any key sends that header and returns the body of a 200 response.
\<close>

theorem init_accepts_every_key:
  "api_key (init key url) = key
   \<and> headers (init key url) = [(''X-API-Key'', key)]
   \<and> (responds ev (init key url) file_path text system_prompt r
        \<and> status_code r = 200 \<and> json_body r = Some v \<longrightarrow>
      process_document ev (init key url) file_path text system_prompt =
        (Inr v,
         [Open file_path, Post (build_request (init key url) file_path file_path text system_prompt),
          Close file_path, Close file_path])
      \<and> req_headers (build_request (init key url) file_path file_path text system_prompt)
          = [(''X-API-Key'', key)])"
proof (intro conjI impI)
  show "api_key (init key url) = key" by (simp add: init_def)
  show "headers (init key url) = [(''X-API-Key'', key)]" by (simp add: init_def)
next
  assume h: "responds ev (init key url) file_path text system_prompt r
        \<and> status_code r = 200 \<and> json_body r = Some v"
  then have "responds ev (init key url) file_path text system_prompt r" by simp
  from process_document_responds [OF this] h
  show "process_document ev (init key url) file_path text system_prompt =
        (Inr v,
         [Open file_path, Post (build_request (init key url) file_path file_path text system_prompt),
          Close file_path, Close file_path])"
    by (simp add: handle_response_def response_json_def)
next
  show "req_headers (build_request (init key url) file_path file_path text system_prompt)
          = [(''X-API-Key'', key)]"
    by (simp add: build_request_def init_def)
qed

theorem init_accepts_every_key_witness:
  "responds (mock_env (Response \<lparr>status_code = 200, json_body = Some sample_body\<rparr>))
     (init [] default_base_url) ''scans/scan.pdf'' None None
     \<lparr>status_code = 200, json_body = Some sample_body\<rparr>
   \<and> headers (init [] default_base_url) = [(''X-API-Key'', [])]
   \<and> fst (process_document (mock_env (Response \<lparr>status_code = 200, json_body = Some sample_body\<rparr>))
        (init [] default_base_url) ''scans/scan.pdf'' None None) = Inr sample_body"
  using init_accepts_every_key [of "[]" default_base_url
      "mock_env (Response \<lparr>status_code = 200, json_body = Some sample_body\<rparr>)"
      "''scans/scan.pdf''" None None "\<lparr>status_code = 200, json_body = Some sample_body\<rparr>" sample_body]
    responds_sample [of "\<lparr>status_code = 200, json_body = Some sample_body\<rparr>"
      "init [] default_base_url" None None]
  by simp

text \<open>
  Claim C9. For every base URL and API key, when the file passes the local checks and
  opens, \<open>process_document\<close> calls \<open>requests.post\<close> exactly once: a POST to the base
  URL without its trailing slashes followed by \<open>/ocr/process\<close>, with the header
  \<open>X-API-Key\<close> set to the key, one file part named \<open>file\<close> whose file name is the
  base name of the path, and a timeout of 60 seconds. The stripped URL is the base URL
  without a final run of slashes, and the base name is the part of the path after its last
  slash.
\<close>

theorem request_sent:
  assumes "fs ev file_path = Some e" and "sint (st_size e) \<le> 52428800" and "open_errno e = None"
  shows "posts (snd (process_document ev (init key url) file_path text system_prompt)) =
           [\<lparr>req_method = ''POST'',
             req_url = rstrip (CHR ''/'') url @ ''/ocr/process'',
             req_headers = [(''X-API-Key'', key)],
             req_files = [(''file'', basename file_path, file_path)],
             req_data = form_field ''text'' text @ form_field ''system_prompt'' system_prompt,
             req_timeout = 60\<rparr>]
       \<and> (\<exists>n. url = rstrip (CHR ''/'') url @ replicate n (CHR ''/''))
       \<and> (rstrip (CHR ''/'') url = [] \<or> last (rstrip (CHR ''/'') url) \<noteq> CHR ''/'')
       \<and> (\<exists>d. file_path = d @ basename file_path \<and> (d = [] \<or> last d = CHR ''/''))
       \<and> CHR ''/'' \<notin> set (basename file_path)"
proof -
  have "posts (snd (process_document ev (init key url) file_path text system_prompt)) =
         [build_request (init key url) file_path file_path text system_prompt]"
    using post_called_once [OF assms] .
  then show ?thesis
    using rstrip_decomp [of url "CHR ''/''"] rstrip_last [of "CHR ''/''" url]
      basename_decomp [of file_path] basename_no_slash [of file_path]
    by (simp add: build_request_def init_def)
qed

theorem request_sent_witness:
  "fs (mock_env (Raises ConnectionError)) ''scans/scan.pdf''
     = Some \<lparr>st_size = 2048, open_errno = None\<rparr>
   \<and> sint (2048 :: 64 word) \<le> 52428800
   \<and> posts (snd (process_document (mock_env (Raises ConnectionError))
        (init ''secret'' ''https://host/api/v1//'') ''scans/scan.pdf'' (Some ''Chest X-ray'') None)) =
       [\<lparr>req_method = ''POST'',
         req_url = ''https://host/api/v1/ocr/process'',
         req_headers = [(''X-API-Key'', ''secret'')],
         req_files = [(''file'', ''scan.pdf'', ''scans/scan.pdf'')],
         req_data = [(''text'', ''Chest X-ray'')],
         req_timeout = 60\<rparr>]"
proof -
  have entry: "fs (mock_env (Raises ConnectionError)) ''scans/scan.pdf''
      = Some \<lparr>st_size = 2048, open_errno = None\<rparr>"
    by (simp add: mock_env_def sample_fs_def)
  have size: "sint (st_size \<lparr>st_size = 2048 :: 64 word, open_errno = None :: int option\<rparr>) \<le> 52428800"
    by simp
  have opens: "open_errno \<lparr>st_size = 2048 :: 64 word, open_errno = None :: int option\<rparr> = None"
    by simp
  show ?thesis
    using request_sent [OF entry size opens, of "''secret''" "''https://host/api/v1//''"
        "Some ''Chest X-ray''" None] entry
    by (simp add: rstrip_def basename_def form_field_def)
qed

subsection \<open>The file handle\<close>

text \<open>
  Claim C6. After every call of \<open>process_document\<close> no handle is left open: whenever
  the file was opened, the last event of the call is the closing of that handle, whether
  the call returns a value, raises for an error status, a timeout, a connection failure or
  an invalid body, or raises anything else.
\<close>

theorem file_handle_closed:
  "open_handles (snd (process_document ev c file_path text system_prompt)) = []
   \<and> (Open h \<in> set (snd (process_document ev c file_path text system_prompt)) \<longrightarrow>
        h = file_path \<and> last (snd (process_document ev c file_path text system_prompt)) = Close h)"
  using trace_closed [of ev c file_path "text" system_prompt]
  by (auto simp: open_handles_def)

theorem file_handle_closed_witness:
  "Open ''scans/scan.pdf'' \<in> set (snd (process_document (mock_env (Raises Timeout))
        (init ''key'' default_base_url) ''scans/scan.pdf'' None None))
   \<and> fst (process_document (mock_env (Raises Timeout))
        (init ''key'' default_base_url) ''scans/scan.pdf'' None None)
      = Inl (RequestException ''Request timed out'')
   \<and> last (snd (process_document (mock_env (Raises Timeout))
        (init ''key'' default_base_url) ''scans/scan.pdf'' None None)) = Close ''scans/scan.pdf''
   \<and> open_handles (snd (process_document (mock_env (Raises Timeout))
        (init ''key'' default_base_url) ''scans/scan.pdf'' None None)) = []"
proof -
  have run: "process_document (mock_env (Raises Timeout))
        (init ''key'' default_base_url) ''scans/scan.pdf'' None None =
      (Inl (RequestException ''Request timed out''),
       [Open ''scans/scan.pdf'',
        Post (build_request (init ''key'' default_base_url) ''scans/scan.pdf'' ''scans/scan.pdf'' None None),
        Close ''scans/scan.pdf''])"
    by (rule trans [OF process_document_raises [where e = "\<lparr>st_size = 2048, open_errno = None\<rparr>" and x = Timeout]])
       (simp_all add: mock_env_def sample_fs_def)
  show ?thesis
    using file_handle_closed [of "mock_env (Raises Timeout)" "init ''key'' default_base_url"
        "''scans/scan.pdf''" None None "''scans/scan.pdf''"]
    by (simp add: run)
qed

subsection \<open>The response\<close>

text \<open>
  Claim C7. For every response with status 200 whose body is valid JSON,
  \<open>process_document\<close> returns the decoded body unchanged.
\<close>

theorem status_200_returns_body:
  assumes "responds ev c file_path text system_prompt r"
    and "status_code r = 200" and "json_body r = Some v"
  shows "fst (process_document ev c file_path text system_prompt) = Inr v"
  using assms(2,3)
  by (simp add: process_document_responds [OF assms(1)] handle_response_def response_json_def)

theorem status_200_returns_body_witness:
  "responds (mock_env (Response \<lparr>status_code = 200, json_body = Some sample_body\<rparr>))
     (init ''key'' default_base_url) ''scans/scan.pdf'' None None
     \<lparr>status_code = 200, json_body = Some sample_body\<rparr>
   \<and> fst (process_document (mock_env (Response \<lparr>status_code = 200, json_body = Some sample_body\<rparr>))
          (init ''key'' default_base_url) ''scans/scan.pdf'' None None) = Inr sample_body"
  using status_200_returns_body [OF responds_sample,
      of "\<lparr>status_code = 200, json_body = Some sample_body\<rparr>" sample_body
         "init ''key'' default_base_url" None None]
    responds_sample [of "\<lparr>status_code = 200, json_body = Some sample_body\<rparr>"
         "init ''key'' default_base_url" None None]
  by simp

text \<open>
  Claim C1 says that every status outside 2xx other than 400, 413, 429 and 500 raises
  \<open>HTTPError\<close>, and that no status other than 200 gives a normal return. The last branch
  relies on \<open>raise_for_status\<close>, which raises for 400..599 only: for status 304, and
  likewise for 204, the method reaches its end and returns \<open>None\<close>.
\<close>

theorem unlisted_status_304_returns_None:
  "fst (process_document (mock_env (Response \<lparr>status_code = 304, json_body = None\<rparr>))
          (init ''key'' default_base_url) ''scans/scan.pdf'' None None) = Inr JNull
   \<and> fst (process_document (mock_env (Response \<lparr>status_code = 204, json_body = None\<rparr>))
          (init ''key'' default_base_url) ''scans/scan.pdf'' None None) = Inr JNull"
  by (simp add: sample_run)

text \<open>
  What the last branch does for every status it receives.
\<close>

lemma other_status_outcome:
  assumes "responds ev c p t s r"
    and "status_code r \<notin> {200, 400, 413, 429, 500}"
  shows "fst (process_document ev c p t s) =
           (if 400 \<le> status_code r \<and> status_code r < 600 then Inl (HTTPError r) else Inr JNull)"
  using assms(2)
  by (simp add: process_document_responds [OF assms(1)] handle_response_def raise_for_status_def)

text \<open>
  Claim C4. For every 429 response whose body is a JSON object with a \<open>detail\<close> field:
  when \<open>detail\<close> is an object with a \<open>message\<close> field, \<open>process_document\<close> raises a
  \<open>RequestException\<close> whose message is \<open>Usage limit exceeded: \<close> followed by that value
  (so the message contains it); when \<open>detail\<close> is not an object, the message is
  \<open>Usage limit exceeded\<close> and nothing more.
\<close>

theorem usage_limit_message:
  assumes "responds ev c file_path text system_prompt r"
    and "status_code r = 429"
    and "json_body r = Some (JDict kvs)"
    and "map_of kvs ''detail'' = Some d"
  shows "(\<forall>ms m. d = JDict ms \<and> map_of ms ''message'' = Some m \<longrightarrow>
            fst (process_document ev c file_path text system_prompt) =
              Inl (RequestException (''Usage limit exceeded: '' @ py_str (repr ev) m))
            \<and> sublist (py_str (repr ev) m) (''Usage limit exceeded: '' @ py_str (repr ev) m))
       \<and> (\<not> is_dict d \<longrightarrow>
            fst (process_document ev c file_path text system_prompt) =
              Inl (RequestException ''Usage limit exceeded''))"
proof (intro conjI allI impI)
  fix ms m
  assume "d = JDict ms \<and> map_of ms ''message'' = Some m"
  with assms(2-4) show "fst (process_document ev c file_path text system_prompt) =
      Inl (RequestException (''Usage limit exceeded: '' @ py_str (repr ev) m))"
    by (simp add: process_document_responds [OF assms(1)] handle_response_def response_json_def
        dict_get_def)
  show "sublist (py_str (repr ev) m) (''Usage limit exceeded: '' @ py_str (repr ev) m)"
    unfolding sublist_def by (rule exI [of _ "''Usage limit exceeded: ''"], rule exI [of _ "[]"]) simp
next
  assume "\<not> is_dict d"
  with assms(2-4) show "fst (process_document ev c file_path text system_prompt) =
      Inl (RequestException ''Usage limit exceeded'')"
    by (simp add: process_document_responds [OF assms(1)] handle_response_def response_json_def
        dict_get_def)
qed

theorem usage_limit_message_witness:
  "responds (mock_env (Response \<lparr>status_code = 429,
       json_body = Some (JDict [(''detail'', JDict [(''message'', JStr ''limit hit'')])])\<rparr>))
     (init ''key'' default_base_url) ''scans/scan.pdf'' None None
     \<lparr>status_code = 429,
       json_body = Some (JDict [(''detail'', JDict [(''message'', JStr ''limit hit'')])])\<rparr>
   \<and> map_of [(''detail'', JDict [(''message'', JStr ''limit hit'')])] ''detail''
       = Some (JDict [(''message'', JStr ''limit hit'')])
   \<and> map_of [(''message'', JStr ''limit hit'')] ''message'' = Some (JStr ''limit hit'')
   \<and> fst (process_document (mock_env (Response \<lparr>status_code = 429,
            json_body = Some (JDict [(''detail'', JDict [(''message'', JStr ''limit hit'')])])\<rparr>))
          (init ''key'' default_base_url) ''scans/scan.pdf'' None None)
       = Inl (RequestException ''Usage limit exceeded: limit hit'')
   \<and> sublist ''limit hit'' ''Usage limit exceeded: limit hit''
   \<and> responds (mock_env (Response \<lparr>status_code = 429,
       json_body = Some (JDict [(''detail'', JStr ''x'')])\<rparr>))
     (init ''key'' default_base_url) ''scans/scan.pdf'' None None
     \<lparr>status_code = 429, json_body = Some (JDict [(''detail'', JStr ''x'')])\<rparr>
   \<and> map_of [(''detail'', JStr ''x'')] ''detail'' = Some (JStr ''x'')
   \<and> \<not> is_dict (JStr ''x'')
   \<and> fst (process_document (mock_env (Response \<lparr>status_code = 429,
            json_body = Some (JDict [(''detail'', JStr ''x'')])\<rparr>))
          (init ''key'' default_base_url) ''scans/scan.pdf'' None None)
       = Inl (RequestException ''Usage limit exceeded'')"
proof -
  let ?r1 = "\<lparr>status_code = 429,
       json_body = Some (JDict [(''detail'', JDict [(''message'', JStr ''limit hit'')])])\<rparr>"
  let ?r2 = "\<lparr>status_code = 429, json_body = Some (JDict [(''detail'', JStr ''x'')])\<rparr>"
  let ?c = "init ''key'' default_base_url"
  have r1: "responds (mock_env (Response ?r1)) ?c ''scans/scan.pdf'' None None ?r1"
    by (rule responds_sample)
  have r2: "responds (mock_env (Response ?r2)) ?c ''scans/scan.pdf'' None None ?r2"
    by (rule responds_sample)
  have d1: "map_of [(''detail'', JDict [(''message'', JStr ''limit hit'')])] ''detail''
      = Some (JDict [(''message'', JStr ''limit hit'')])"
    by simp
  have d2: "map_of [(''detail'', JStr ''x'')] ''detail'' = Some (JStr ''x'')"
    by simp
  have a: "fst (process_document (mock_env (Response ?r1)) ?c ''scans/scan.pdf'' None None)
       = Inl (RequestException ''Usage limit exceeded: limit hit'')
     \<and> sublist ''limit hit'' ''Usage limit exceeded: limit hit''"
    using usage_limit_message [OF r1, of "[(''detail'', JDict [(''message'', JStr ''limit hit'')])]"
        "JDict [(''message'', JStr ''limit hit'')]"]
    by simp
  have b: "fst (process_document (mock_env (Response ?r2)) ?c ''scans/scan.pdf'' None None)
       = Inl (RequestException ''Usage limit exceeded'')"
    using usage_limit_message [OF r2, of "[(''detail'', JStr ''x'')]" "JStr ''x''"]
    by simp
  from r1 r2 d1 d2 a b show ?thesis by simp
qed

text \<open>
  Claim C10. For every 400, 429 or 500 response whose body is not valid JSON,
  \<open>process_document\<close> raises \<open>RequestException\<close> with the message
  \<open>Invalid JSON response\<close>; a 413 response raises the fixed \<open>File too large\<close> message
  whatever its body; and for a body that is a JSON object, the default text (\<open>Bad Request\<close>,
  \<open>Internal Server Error\<close>, \<open>Usage limit exceeded\<close>) is used exactly when the expected
  field is missing, and the value of the field otherwise.
\<close>

theorem error_body_handling:
  assumes "responds ev c file_path text system_prompt r"
  shows "(status_code r \<in> {400, 429, 500} \<and> json_body r = None \<longrightarrow>
            fst (process_document ev c file_path text system_prompt) =
              Inl (RequestException ''Invalid JSON response''))
       \<and> (status_code r = 413 \<longrightarrow>
            fst (process_document ev c file_path text system_prompt) =
              Inl (RequestException ''File too large (max 50MB)''))
       \<and> (\<forall>kvs. json_body r = Some (JDict kvs) \<longrightarrow>
            (status_code r = 400 \<longrightarrow>
               fst (process_document ev c file_path text system_prompt) =
                 Inl (RequestException (''Bad Request: '' @
                   (case map_of kvs ''detail'' of
                      None \<Rightarrow> ''Bad Request'' | Some d \<Rightarrow> py_str (repr ev) d))))
          \<and> (status_code r = 500 \<longrightarrow>
               fst (process_document ev c file_path text system_prompt) =
                 Inl (RequestException (''Internal Server Error: '' @
                   (case map_of kvs ''detail'' of
                      None \<Rightarrow> ''Internal Server Error'' | Some d \<Rightarrow> py_str (repr ev) d))))
          \<and> (status_code r = 429 \<longrightarrow>
               (\<forall>ms. map_of kvs ''detail'' = None \<and> ms = []
                      \<or> map_of kvs ''detail'' = Some (JDict ms) \<longrightarrow>
                  fst (process_document ev c file_path text system_prompt) =
                    Inl (RequestException (''Usage limit exceeded: '' @
                      (case map_of ms ''message'' of
                         None \<Rightarrow> ''Usage limit exceeded'' | Some m \<Rightarrow> py_str (repr ev) m))))))"
proof -
  note run = process_document_responds [OF assms] handle_response_def response_json_def dict_get_def
  have invalid: "status_code r \<in> {400, 429, 500} \<and> json_body r = None \<longrightarrow>
      fst (process_document ev c file_path text system_prompt) =
        Inl (RequestException ''Invalid JSON response'')"
    by (auto simp: run)
  have too_large: "status_code r = 413 \<longrightarrow>
      fst (process_document ev c file_path text system_prompt) =
        Inl (RequestException ''File too large (max 50MB)'')"
    by (simp add: run)
  have bad: "status_code r = 400 \<longrightarrow>
      fst (process_document ev c file_path text system_prompt) =
        Inl (RequestException (''Bad Request: '' @
          (case map_of kvs ''detail'' of None \<Rightarrow> ''Bad Request'' | Some d \<Rightarrow> py_str (repr ev) d)))"
    if "json_body r = Some (JDict kvs)" for kvs
    using that by (simp add: run split: option.split)
  have server: "status_code r = 500 \<longrightarrow>
      fst (process_document ev c file_path text system_prompt) =
        Inl (RequestException (''Internal Server Error: '' @
          (case map_of kvs ''detail'' of
             None \<Rightarrow> ''Internal Server Error'' | Some d \<Rightarrow> py_str (repr ev) d)))"
    if "json_body r = Some (JDict kvs)" for kvs
    using that by (simp add: run split: option.split)
  have limit: "status_code r = 429 \<longrightarrow>
      (\<forall>ms. map_of kvs ''detail'' = None \<and> ms = [] \<or> map_of kvs ''detail'' = Some (JDict ms) \<longrightarrow>
         fst (process_document ev c file_path text system_prompt) =
           Inl (RequestException (''Usage limit exceeded: '' @
             (case map_of ms ''message'' of
                None \<Rightarrow> ''Usage limit exceeded'' | Some m \<Rightarrow> py_str (repr ev) m))))"
    if "json_body r = Some (JDict kvs)" for kvs
    using that by (auto simp: run split: option.split)
  from invalid too_large bad server limit show ?thesis by blast
qed

theorem error_body_handling_witness:
  "(let r = \<lparr>status_code = 400, json_body = None\<rparr>
    in responds (mock_env (Response r)) (init ''key'' default_base_url) ''scans/scan.pdf'' None None r
       \<and> status_code r \<in> {400, 429, 500} \<and> json_body r = None
       \<and> fst (process_document (mock_env (Response r)) (init ''key'' default_base_url)
                ''scans/scan.pdf'' None None) = Inl (RequestException ''Invalid JSON response''))
   \<and> (let r = \<lparr>status_code = 429, json_body = None\<rparr>
    in responds (mock_env (Response r)) (init ''key'' default_base_url) ''scans/scan.pdf'' None None r
       \<and> status_code r \<in> {400, 429, 500} \<and> json_body r = None
       \<and> fst (process_document (mock_env (Response r)) (init ''key'' default_base_url)
                ''scans/scan.pdf'' None None) = Inl (RequestException ''Invalid JSON response''))
   \<and> (let r = \<lparr>status_code = 500, json_body = None\<rparr>
    in responds (mock_env (Response r)) (init ''key'' default_base_url) ''scans/scan.pdf'' None None r
       \<and> status_code r \<in> {400, 429, 500} \<and> json_body r = None
       \<and> fst (process_document (mock_env (Response r)) (init ''key'' default_base_url)
                ''scans/scan.pdf'' None None) = Inl (RequestException ''Invalid JSON response''))
   \<and> (let r = \<lparr>status_code = 413, json_body = Some (JDict [(''detail'', JStr ''payload'')])\<rparr>
    in responds (mock_env (Response r)) (init ''key'' default_base_url) ''scans/scan.pdf'' None None r
       \<and> status_code r = 413
       \<and> fst (process_document (mock_env (Response r)) (init ''key'' default_base_url)
                ''scans/scan.pdf'' None None) = Inl (RequestException ''File too large (max 50MB)''))
   \<and> (let r = \<lparr>status_code = 400, json_body = Some (JDict [(''error'', JStr ''no file'')])\<rparr>
    in responds (mock_env (Response r)) (init ''key'' default_base_url) ''scans/scan.pdf'' None None r
       \<and> status_code r = 400 \<and> map_of [(''error'', JStr ''no file'')] ''detail'' = None
       \<and> fst (process_document (mock_env (Response r)) (init ''key'' default_base_url)
                ''scans/scan.pdf'' None None) = Inl (RequestException ''Bad Request: Bad Request''))
   \<and> (let r = \<lparr>status_code = 400, json_body = Some (JDict [(''detail'', JStr ''no file'')])\<rparr>
    in responds (mock_env (Response r)) (init ''key'' default_base_url) ''scans/scan.pdf'' None None r
       \<and> status_code r = 400 \<and> map_of [(''detail'', JStr ''no file'')] ''detail'' = Some (JStr ''no file'')
       \<and> fst (process_document (mock_env (Response r)) (init ''key'' default_base_url)
                ''scans/scan.pdf'' None None) = Inl (RequestException ''Bad Request: no file''))
   \<and> (let r = \<lparr>status_code = 500, json_body = Some (JDict [])\<rparr>
    in responds (mock_env (Response r)) (init ''key'' default_base_url) ''scans/scan.pdf'' None None r
       \<and> status_code r = 500 \<and> map_of ([] :: (string \<times> json) list) ''detail'' = None
       \<and> fst (process_document (mock_env (Response r)) (init ''key'' default_base_url)
                ''scans/scan.pdf'' None None)
           = Inl (RequestException ''Internal Server Error: Internal Server Error''))
   \<and> (let r = \<lparr>status_code = 429, json_body = Some (JDict [])\<rparr>
    in responds (mock_env (Response r)) (init ''key'' default_base_url) ''scans/scan.pdf'' None None r
       \<and> status_code r = 429 \<and> map_of ([] :: (string \<times> json) list) ''detail'' = None
       \<and> fst (process_document (mock_env (Response r)) (init ''key'' default_base_url)
                ''scans/scan.pdf'' None None)
           = Inl (RequestException ''Usage limit exceeded: Usage limit exceeded''))"
proof -
  let ?c = "init ''key'' default_base_url"
  note inst = error_body_handling [OF responds_sample, of _ ?c None None]
  have a: "fst (process_document (mock_env (Response \<lparr>status_code = 400, json_body = None\<rparr>)) ?c
      ''scans/scan.pdf'' None None) = Inl (RequestException ''Invalid JSON response'')"
    using inst [of "\<lparr>status_code = 400, json_body = None\<rparr>"] by simp
  have b: "fst (process_document (mock_env (Response \<lparr>status_code = 429, json_body = None\<rparr>)) ?c
      ''scans/scan.pdf'' None None) = Inl (RequestException ''Invalid JSON response'')"
    using inst [of "\<lparr>status_code = 429, json_body = None\<rparr>"] by simp
  have c: "fst (process_document (mock_env (Response \<lparr>status_code = 500, json_body = None\<rparr>)) ?c
      ''scans/scan.pdf'' None None) = Inl (RequestException ''Invalid JSON response'')"
    using inst [of "\<lparr>status_code = 500, json_body = None\<rparr>"] by simp
  have d: "fst (process_document (mock_env (Response
        \<lparr>status_code = 413, json_body = Some (JDict [(''detail'', JStr ''payload'')])\<rparr>)) ?c
      ''scans/scan.pdf'' None None) = Inl (RequestException ''File too large (max 50MB)'')"
    using inst [of "\<lparr>status_code = 413, json_body = Some (JDict [(''detail'', JStr ''payload'')])\<rparr>"]
    by simp
  have e: "fst (process_document (mock_env (Response
        \<lparr>status_code = 400, json_body = Some (JDict [(''error'', JStr ''no file'')])\<rparr>)) ?c
      ''scans/scan.pdf'' None None) = Inl (RequestException ''Bad Request: Bad Request'')"
    using inst [of "\<lparr>status_code = 400, json_body = Some (JDict [(''error'', JStr ''no file'')])\<rparr>"]
    by simp
  have f: "fst (process_document (mock_env (Response
        \<lparr>status_code = 400, json_body = Some (JDict [(''detail'', JStr ''no file'')])\<rparr>)) ?c
      ''scans/scan.pdf'' None None) = Inl (RequestException ''Bad Request: no file'')"
    using inst [of "\<lparr>status_code = 400, json_body = Some (JDict [(''detail'', JStr ''no file'')])\<rparr>"]
    by simp
  have g: "fst (process_document (mock_env (Response \<lparr>status_code = 500, json_body = Some (JDict [])\<rparr>)) ?c
      ''scans/scan.pdf'' None None)
        = Inl (RequestException ''Internal Server Error: Internal Server Error'')"
    using inst [of "\<lparr>status_code = 500, json_body = Some (JDict [])\<rparr>"] by simp
  have h: "fst (process_document (mock_env (Response \<lparr>status_code = 429, json_body = Some (JDict [])\<rparr>)) ?c
      ''scans/scan.pdf'' None None)
        = Inl (RequestException ''Usage limit exceeded: Usage limit exceeded'')"
    using inst [of "\<lparr>status_code = 429, json_body = Some (JDict [])\<rparr>"] by simp
  show ?thesis
    unfolding Let_def
    using a b c d e f g h by (simp add: responds_sample)
qed

end
